theory Spec2Isabelle
  imports Complex_Main "HOL-Library.Word" "HOL-Library.Sublist"
begin

unbundle bit_operations_syntax

section \<open>Python values used by the client\<close>

text \<open>
  A Python \<open>str\<close> is modelled as a \<open>string\<close>, the list of the bytes of its UTF-8
  encoding. \<open>replace\<close> with ASCII patterns acts on these bytes as it does on the
  code points.
\<close>

type_synonym byte = "8 word"

definition encode_utf8 :: "string \<Rightarrow> byte list" where
  "encode_utf8 s = map of_char s"

definition decode_utf8 :: "byte list \<Rightarrow> string" where
  "decode_utf8 bs = map (\<lambda>b. char_of (unat b)) bs"

subsection \<open>\<open>str.replace\<close>\<close>

text \<open>
  \<open>s.replace(old, new)\<close>: every non-overlapping occurrence of \<open>old\<close>, scanning from
  the left, becomes \<open>new\<close>; an empty \<open>old\<close> matches before every character and at
  the end.
\<close>

function replace_from :: "string \<Rightarrow> string \<Rightarrow> string \<Rightarrow> string" where
  "replace_from old new s =
     (if s = [] then []
      else if old \<noteq> [] \<and> prefix old s
        then new @ replace_from old new (drop (length old) s)
      else hd s # replace_from old new (tl s))"
  by pat_completeness auto
termination
  by (relation "measure (\<lambda>(old, new, s). length s)") auto

declare replace_from.simps [simp del]

definition py_replace :: "string \<Rightarrow> string \<Rightarrow> string \<Rightarrow> string" where
  "py_replace s old new =
     (if old = [] then new @ concat (map (\<lambda>c. c # new) s)
      else replace_from old new s)"

subsection \<open>\<open>str.lower\<close>, \<open>str.upper\<close>, \<open>str.strip\<close>\<close>

text \<open>
  On a string of ASCII characters these methods act character by character:
  \<open>lower\<close> maps \<open>A\<close> to \<open>Z\<close> onto \<open>a\<close> to \<open>z\<close>, \<open>upper\<close> does the converse, and
  \<open>strip\<close> removes from both ends the characters for which \<open>str.isspace\<close>
  holds, 9 to 13 and 28 to 32. On a string with a character beyond ASCII the
  result is decided by the Unicode tables of the interpreter: case mappings
  that are not character by character (\<open>U+0130\<close> lower-cases to two code points,
  \<open>U+017F\<close> upper-cases to \<open>S\<close>) and more white space (\<open>U+00A0\<close>, \<open>U+2003\<close>).
  These tables are not part of the program; they are a parameter of every
  function that calls one of the three methods, and the theorems hold for
  every value of it.
\<close>

record unicode_tables =
  lower_beyond_ascii :: "string \<Rightarrow> string"
  upper_beyond_ascii :: "string \<Rightarrow> string"
  strip_beyond_ascii :: "string \<Rightarrow> string"

definition is_ascii :: "string \<Rightarrow> bool" where
  "is_ascii s = list_all (\<lambda>c. (of_char c :: nat) < 128) s"

definition lower_char :: "char \<Rightarrow> char" where
  "lower_char c =
     (let n = (of_char c :: nat) in if 65 \<le> n \<and> n \<le> 90 then char_of (n + 32) else c)"

definition upper_char :: "char \<Rightarrow> char" where
  "upper_char c =
     (let n = (of_char c :: nat) in if 97 \<le> n \<and> n \<le> 122 then char_of (n - 32) else c)"

definition py_lower :: "unicode_tables \<Rightarrow> string \<Rightarrow> string" where
  "py_lower ucd s = (if is_ascii s then map lower_char s else lower_beyond_ascii ucd s)"

definition py_upper :: "unicode_tables \<Rightarrow> string \<Rightarrow> string" where
  "py_upper ucd s = (if is_ascii s then map upper_char s else upper_beyond_ascii ucd s)"

definition is_space :: "char \<Rightarrow> bool" where
  "is_space c =
     (let n = (of_char c :: nat) in (9 \<le> n \<and> n \<le> 13) \<or> (28 \<le> n \<and> n \<le> 32))"

definition py_strip :: "unicode_tables \<Rightarrow> string \<Rightarrow> string" where
  "py_strip ucd s =
     (if is_ascii s then rev (dropWhile is_space (rev (dropWhile is_space s)))
      else strip_beyond_ascii ucd s)"

section \<open>The standard-library functions behind \<open>generate_hmac\<close>\<close>

subsection \<open>SHA-1 (\<open>hashlib.sha1\<close>)\<close>

definition be_word :: "byte list \<Rightarrow> 32 word" where
  "be_word bs = foldl (\<lambda>acc b. push_bit 8 acc OR ucast b) 0 bs"

definition be_bytes :: "32 word \<Rightarrow> byte list" where
  "be_bytes w = map (\<lambda>i. ucast (drop_bit (8 * i) w)) [3, 2, 1, 0]"

definition be_bytes64 :: "64 word \<Rightarrow> byte list" where
  "be_bytes64 w = map (\<lambda>i. ucast (drop_bit (8 * i) w)) [7, 6, 5, 4, 3, 2, 1, 0]"

definition sha1_pad :: "byte list \<Rightarrow> byte list" where
  "sha1_pad m =
     m @ [0x80] @ replicate ((119 - length m mod 64) mod 64) 0
       @ be_bytes64 (of_nat (8 * length m))"

definition sha1_blocks :: "byte list \<Rightarrow> 32 word list list" where
  "sha1_blocks m =
     map (\<lambda>i. map (\<lambda>j. be_word (take 4 (drop (64 * i + 4 * j) m))) [0..<16])
       [0..<length m div 64]"

fun sha1_schedule :: "nat \<Rightarrow> 32 word list \<Rightarrow> 32 word list" where
  "sha1_schedule 0 w = w"
| "sha1_schedule (Suc n) w =
     (let t = length w in
      sha1_schedule n
        (w @ [word_rotl 1 (w ! (t - 3) XOR w ! (t - 8) XOR w ! (t - 14) XOR w ! (t - 16))]))"

definition sha1_f :: "nat \<Rightarrow> 32 word \<Rightarrow> 32 word \<Rightarrow> 32 word \<Rightarrow> 32 word" where
  "sha1_f t b c d =
     (if t < 20 then (b AND c) OR (NOT b AND d)
      else if t < 40 then b XOR c XOR d
      else if t < 60 then (b AND c) OR (b AND d) OR (c AND d)
      else b XOR c XOR d)"

definition sha1_k :: "nat \<Rightarrow> 32 word" where
  "sha1_k t =
     (if t < 20 then 0x5A827999
      else if t < 40 then 0x6ED9EBA1
      else if t < 60 then 0x8F1BBCDC
      else 0xCA62C1D6)"

type_synonym sha1_state = "32 word \<times> 32 word \<times> 32 word \<times> 32 word \<times> 32 word"

definition sha1_round :: "32 word list \<Rightarrow> nat \<Rightarrow> sha1_state \<Rightarrow> sha1_state" where
  "sha1_round w t st =
     (case st of (a, b, c, d, e) \<Rightarrow>
        (word_rotl 5 a + sha1_f t b c d + e + sha1_k t + w ! t, a, word_rotl 30 b, c, d))"

definition sha1_compress :: "sha1_state \<Rightarrow> 32 word list \<Rightarrow> sha1_state" where
  "sha1_compress h blk =
     (let w = sha1_schedule 64 blk in
      case (h, fold (sha1_round w) [0..<80] h) of
        ((h0, h1, h2, h3, h4), (a, b, c, d, e)) \<Rightarrow> (h0 + a, h1 + b, h2 + c, h3 + d, h4 + e))"

definition sha1_init :: sha1_state where
  "sha1_init = (0x67452301, 0xEFCDAB89, 0x98BADCFE, 0x10325476, 0xC3D2E1F0)"

definition sha1 :: "byte list \<Rightarrow> byte list" where
  "sha1 m =
     (case foldl sha1_compress sha1_init (sha1_blocks (sha1_pad m)) of
        (h0, h1, h2, h3, h4) \<Rightarrow> concat (map be_bytes [h0, h1, h2, h3, h4]))"

subsection \<open>HMAC (\<open>hmac.new(key, msg, hashlib.sha1).digest()\<close>)\<close>

definition hmac_sha1 :: "byte list \<Rightarrow> byte list \<Rightarrow> byte list" where
  "hmac_sha1 key msg =
     (let k = (if length key > 64 then sha1 key else key);
          k' = k @ replicate (64 - length k) 0
      in sha1 (map (\<lambda>b. b XOR 0x5C) k' @ sha1 (map (\<lambda>b. b XOR 0x36) k' @ msg)))"

subsection \<open>Base64 (\<open>base64.b64encode\<close>)\<close>

definition b64_alphabet :: string where
  "b64_alphabet = ''ABCDEFGHIJKLMNOPQRSTUVWXYZabcdefghijklmnopqrstuvwxyz0123456789+/''"

definition b64_char :: "nat \<Rightarrow> byte" where
  "b64_char n = of_char (b64_alphabet ! (n mod 64))"

fun b64encode :: "byte list \<Rightarrow> byte list" where
  "b64encode [] = []"
| "b64encode [x] =
     (let n = unat x * 16 in
      [b64_char (n div 64), b64_char n, of_char CHR ''='', of_char CHR ''=''])"
| "b64encode [x, y] =
     (let n = (unat x * 256 + unat y) * 4 in
      [b64_char (n div 4096), b64_char (n div 64), b64_char n, of_char CHR ''=''])"
| "b64encode (x # y # z # bs) =
     (let n = unat x * 65536 + unat y * 256 + unat z in
      [b64_char (n div 262144), b64_char (n div 4096), b64_char (n div 64), b64_char n]
        @ b64encode bs)"

section \<open>checksum.py\<close>

text \<open>
  Exceptions are values: the class name, whether the class derives from
  \<open>Exception\<close> (what \<open>except Exception\<close> catches; \<open>KeyboardInterrupt\<close> and
  \<open>SystemExit\<close> do not), and \<open>str(e)\<close>.
\<close>

datatype py_exn = Raised (exn_type: string) (is_exception: bool) (exn_str: string)

definition ValueError :: "string \<Rightarrow> py_exn" where
  "ValueError msg = Raised ''ValueError'' True msg"

definition TypeError :: "string \<Rightarrow> py_exn" where
  "TypeError msg = Raised ''TypeError'' True msg"

definition KeyError :: "string \<Rightarrow> py_exn" where
  "KeyError msg = Raised ''KeyError'' True msg"

text \<open>The process environment after \<open>load_dotenv()\<close>; \<open>os.getenv\<close> is a lookup.\<close>

type_synonym environ = "string \<Rightarrow> string option"

text \<open>Truth value of an \<open>Optional[str]\<close>: \<open>None\<close> and the empty string are false.\<close>

definition truthy_opt :: "string option \<Rightarrow> bool" where
  "truthy_opt v = (case v of None \<Rightarrow> False | Some s \<Rightarrow> s \<noteq> [])"

record checksum =
  SECRET_KEY_MAIN :: string
  SECRET_KEY_ALT :: string
  SECRET_KEY_LONG :: string
  SUPER_SECRET_CODE :: string

definition missing_secrets_msg :: string where
  "missing_secrets_msg =
     ''Missing required environment variables. Please ensure SECRET_KEY_MAIN, '' @
     ''SECRET_KEY_ALT, SECRET_KEY_LONG and SUPER_SECRET_CODE are set in your .env file.''"

definition checksum_init :: "environ \<Rightarrow> py_exn + checksum" where
  "checksum_init env =
     (let main = env ''SECRET_KEY_MAIN'';
          alt = env ''SECRET_KEY_ALT'';
          long = env ''SECRET_KEY_LONG'';
          code = env ''SUPER_SECRET_CODE''
      in if \<not> list_all truthy_opt [main, alt, long, code]
         then Inl (ValueError missing_secrets_msg)
         else Inr \<lparr>SECRET_KEY_MAIN = the main, SECRET_KEY_ALT = the alt,
                   SECRET_KEY_LONG = the long, SUPER_SECRET_CODE = the code\<rparr>)"

text \<open>
  \<open>datetime.now()\<close> is an input of every function that reads the clock. The
  format \<open>%d/%m/%Y %H:00\<close> pads day, month and hour to two digits; the year is
  written in decimal (four digits for the years 1000 to 9999).
\<close>

record datetime =
  year :: nat
  month :: nat
  day :: nat
  hour :: nat
  minute :: nat
  second :: nat
  microsecond :: nat

fun str_nat :: "nat \<Rightarrow> string" where
  "str_nat n =
     (if n < 10 then [char_of (48 + n)]
      else str_nat (n div 10) @ [char_of (48 + n mod 10)])"

declare str_nat.simps [simp del]

definition pad2 :: "nat \<Rightarrow> string" where
  "pad2 n = (if n < 10 then CHR ''0'' # str_nat n else str_nat n)"

definition get_timestamp :: "datetime \<Rightarrow> string" where
  "get_timestamp now =
     pad2 (day now) @ ''/'' @ pad2 (month now) @ ''/'' @ str_nat (year now)
       @ '' '' @ pad2 (hour now) @ '':00''"

definition generate_hmac :: "string \<Rightarrow> string \<Rightarrow> string" where
  "generate_hmac key message =
     (let key_bytes = encode_utf8 key;
          message_bytes = encode_utf8 message
      in decode_utf8 (b64encode (hmac_sha1 key_bytes message_bytes)))"

definition url_encode_checksum :: "string \<Rightarrow> string" where
  "url_encode_checksum c = py_replace (py_replace c ''='' ''%3d'') '' '' ''+''"

definition checksum_k :: "checksum \<Rightarrow> datetime \<Rightarrow> string \<Rightarrow> string \<Rightarrow> string" where
  "checksum_k self now roll_number campus_code =
     (let timestamp = get_timestamp now;
          message = roll_number @ SUPER_SECRET_CODE self @ campus_code @ timestamp;
          c = generate_hmac (SECRET_KEY_MAIN self) message
      in url_encode_checksum c)"

definition checksum_y :: "checksum \<Rightarrow> datetime \<Rightarrow> string \<Rightarrow> string \<Rightarrow> string" where
  "checksum_y self now username campus_code =
     (let timestamp = get_timestamp now;
          message = username @ SUPER_SECRET_CODE self @ campus_code @ timestamp;
          c = generate_hmac (SECRET_KEY_ALT self) message
      in url_encode_checksum c)"

definition checksum_a :: "checksum \<Rightarrow> datetime \<Rightarrow> string \<Rightarrow> string" where
  "checksum_a self now parameter =
     (let timestamp = get_timestamp now;
          message = SECRET_KEY_LONG self @ parameter @ timestamp;
          c = generate_hmac (SECRET_KEY_MAIN self) message
      in url_encode_checksum c)"

subsection \<open>The signing scheme as the specification words it\<close>

text \<open>
  The escape step read character by character: \<open>=\<close> becomes \<open>%3d\<close>, a space
  becomes \<open>+\<close>, every other character stays.
\<close>

definition spec_escape :: "string \<Rightarrow> string" where
  "spec_escape s =
     concat (map (\<lambda>c. if c = CHR ''='' then ''%3d'' else if c = CHR '' '' then ''+'' else [c]) s)"

text \<open>
  Concatenate the slots of the template in order, compute HMAC with SHA-1 under
  the key, base64-encode the raw digest, escape.
\<close>

definition spec_sign :: "string \<Rightarrow> string list \<Rightarrow> string" where
  "spec_sign key slots =
     spec_escape (decode_utf8 (b64encode (hmac_sha1 (encode_utf8 key) (encode_utf8 (concat slots)))))"

section \<open>api.py\<close>

subsection \<open>Python values: parsed JSON and the result envelope\<close>

text \<open>
  What \<open>response.json()\<close> can return, and what the envelope holds. A \<open>dict\<close> is
  an association list in insertion order; the keys of a \<open>dict\<close> are distinct.
  A \<open>float\<close> is given by its value (infinities and NaN, which are true and not
  containers like every non-zero float, are left out).
\<close>

datatype pyval =
    PNone
  | PBool bool
  | PInt int
  | PFloat real
  | PStr string
  | PList "pyval list"
  | PDict "(string \<times> pyval) list"

type_synonym pydict = "(string \<times> pyval) list"

fun py_truthy :: "pyval \<Rightarrow> bool" where
  "py_truthy PNone = False"
| "py_truthy (PBool b) = b"
| "py_truthy (PInt i) = (i \<noteq> 0)"
| "py_truthy (PFloat x) = (x \<noteq> 0)"
| "py_truthy (PStr s) = (s \<noteq> [])"
| "py_truthy (PList xs) = (xs \<noteq> [])"
| "py_truthy (PDict kvs) = (kvs \<noteq> [])"

fun type_name :: "pyval \<Rightarrow> string" where
  "type_name PNone = ''NoneType''"
| "type_name (PBool b) = ''bool''"
| "type_name (PInt i) = ''int''"
| "type_name (PFloat x) = ''float''"
| "type_name (PStr s) = ''str''"
| "type_name (PList xs) = ''list''"
| "type_name (PDict kvs) = ''dict''"

definition quoted :: "string \<Rightarrow> string" where
  "quoted s = CHR 0x27 # s @ [CHR 0x27]"

text \<open>
  \<open>key in v\<close> for a \<open>str\<close> key: a key of a dict, an element of a list, a
  substring of a string; a \<open>TypeError\<close> on anything else. The texts of the
  \<open>TypeError\<close>s are those of CPython 3.12.
\<close>

fun py_contains :: "string \<Rightarrow> pyval \<Rightarrow> py_exn + bool" where
  "py_contains key (PDict kvs) = Inr (key \<in> set (map fst kvs))"
| "py_contains key (PList xs) = Inr (PStr key \<in> set xs)"
| "py_contains key (PStr s) = Inr (sublist key s)"
| "py_contains key v =
     Inl (TypeError (''argument of type '' @ quoted (type_name v) @ '' is not iterable''))"

text \<open>\<open>v[key]\<close> for a \<open>str\<close> key.\<close>

fun py_getitem :: "pyval \<Rightarrow> string \<Rightarrow> py_exn + pyval" where
  "py_getitem (PDict kvs) key =
     (case map_of kvs key of None \<Rightarrow> Inl (KeyError (quoted key)) | Some x \<Rightarrow> Inr x)"
| "py_getitem (PList xs) key =
     Inl (TypeError ''list indices must be integers or slices, not str'')"
| "py_getitem (PStr s) key =
     Inl (TypeError (''string indices must be integers, not '' @ quoted ''str''))"
| "py_getitem v key =
     Inl (TypeError (quoted (type_name v) @ '' object is not subscriptable''))"

text \<open>\<open>f"{x}"\<close> for an \<open>Optional[str]\<close>.\<close>

definition py_format :: "string option \<Rightarrow> string" where
  "py_format v = (case v of None \<Rightarrow> ''None'' | Some s \<Rightarrow> s)"

subsection \<open>The HTTP session\<close>

datatype http_verb = GET | POST

text \<open>One call of \<open>session.get\<close> or \<open>session.post\<close> with its keyword arguments.\<close>

record http_call =
  call_verb :: http_verb
  call_url :: string
  call_params :: "(string \<times> string) list option"
  call_json :: "(string \<times> string) list option"
  call_data :: "(string \<times> string) list option"

text \<open>
  A response: \<open>status_code\<close>, \<open>text\<close>, and what \<open>json()\<close> does, raise or
  return a value.
\<close>

record response =
  status_code :: int
  raw_text :: string
  json_result :: "py_exn + pyval"

text \<open>
  The network is a function from the call to what the session does with it:
  raise, or return a response. Every function that uses the session also
  returns the list of the calls it handed to the session.
\<close>

type_synonym session = "http_call \<Rightarrow> py_exn + response"

type_synonym outcome = "(py_exn + pydict) \<times> http_call list"

definition send :: "session \<Rightarrow> http_call \<Rightarrow> (py_exn + response) \<times> http_call list" where
  "send session c = (session c, [c])"

subsection \<open>\<open>API._make_request\<close>\<close>

text \<open>Lines 53 to 70: from the response to the envelope (or to an exception).\<close>

definition success_envelope :: "bool \<Rightarrow> response \<Rightarrow> pyval \<Rightarrow> pydict" where
  "success_envelope is_success r json_data =
     [(''success'', PBool is_success),
      (''status_code'', PInt (status_code r)),
      (''data'', json_data),
      (''raw_response'', PStr (raw_text r))]"

definition classify :: "response \<Rightarrow> py_exn + pydict" where
  "classify r =
     (let json_data = (case json_result r of Inl e \<Rightarrow> PNone | Inr v \<Rightarrow> v);
          is_success = (status_code r = 200)
      in if py_truthy json_data then
           (case py_contains ''code'' json_data of
              Inl e \<Rightarrow> Inl e
            | Inr has_code \<Rightarrow>
                if has_code then
                  (if is_success then
                     (case py_getitem json_data ''code'' of
                        Inl e \<Rightarrow> Inl e
                      | Inr v \<Rightarrow> Inr (success_envelope (v = PStr ''200'') r json_data))
                   else Inr (success_envelope False r json_data))
                else Inr (success_envelope is_success r json_data))
         else Inr (success_envelope is_success r json_data))"

text \<open>
  Lines 71 to 77: the handler \<open>except Exception as e\<close> around the whole body. An
  exception whose class does not derive from \<open>Exception\<close> passes through.
\<close>

definition error_envelope :: "py_exn \<Rightarrow> pydict" where
  "error_envelope e =
     [(''success'', PBool False),
      (''error'', PStr (exn_str e)),
      (''status_code'', PNone),
      (''data'', PNone)]"

definition except_Exception :: "py_exn + pydict \<Rightarrow> py_exn + pydict" where
  "except_Exception body =
     (case body of
        Inr envelope \<Rightarrow> Inr envelope
      | Inl e \<Rightarrow> if is_exception e then Inr (error_envelope e) else Inl e)"

definition make_request ::
  "unicode_tables \<Rightarrow> session \<Rightarrow> string \<Rightarrow> string \<Rightarrow> (string \<times> string) list option
     \<Rightarrow> (string \<times> string) list option \<Rightarrow> bool \<Rightarrow> outcome" where
  "make_request ucd session method url params data use_json =
     (let (sent, calls) =
            (if py_upper ucd method = ''GET'' then
               send session \<lparr>call_verb = GET, call_url = url, call_params = params,
                              call_json = None, call_data = None\<rparr>
             else if py_upper ucd method = ''POST'' then
               (if use_json then
                  send session \<lparr>call_verb = POST, call_url = url, call_params = params,
                                 call_json = data, call_data = None\<rparr>
                else
                  send session \<lparr>call_verb = POST, call_url = url, call_params = params,
                                 call_json = None, call_data = data\<rparr>)
             else (Inl (ValueError (''Unsupported HTTP method: '' @ method)), []))
      in (except_Exception (case sent of Inl e \<Rightarrow> Inl e | Inr r \<Rightarrow> classify r), calls))"

subsection \<open>\<open>API.__init__\<close>\<close>

record api =
  AUTHEN_KEY :: string
  checksum :: checksum
  headers :: "(string \<times> string) list"
  BASE_URL :: "string option"
  GOOGLE_AUTH_URL :: "string option"

definition missing_authen_msg :: string where
  "missing_authen_msg =
     ''Missing required environment variable AUTHEN_KEY. '' @
     ''Please set it in your .env file.''"

text \<open>
  The class attributes \<open>BASE_URL\<close> and \<open>GOOGLE_AUTH_URL\<close> are read from the same
  environment when the class is defined; no code looks at them before a method
  builds a URL.
\<close>

definition API_init :: "environ \<Rightarrow> py_exn + api" where
  "API_init env =
     (let key = env ''AUTHEN_KEY'' in
      if \<not> truthy_opt key then Inl (ValueError missing_authen_msg)
      else
        (case checksum_init env of
           Inl e \<Rightarrow> Inl e
         | Inr c \<Rightarrow>
             Inr \<lparr>AUTHEN_KEY = the key, checksum = c,
                  headers = [(''Content-Type'', ''application/json''),
                             (''User-Agent'', ''okhttp/3.12.1'')],
                  BASE_URL = env ''BASE_URL'',
                  GOOGLE_AUTH_URL = env ''GOOGLE_AUTH_URL''\<rparr>))"

subsection \<open>The operations\<close>

text \<open>
  Every method takes the Unicode tables (for the string methods it or
  \<open>_make_request\<close> calls), the session and, when it signs, the reading of the
  clock that its checksum call makes. \<open>get_all_active_campus\<close> and \<open>get_version\<close>
  pass no parameters and do not sign.
\<close>

definition get_student_by_id ::
  "unicode_tables \<Rightarrow> api \<Rightarrow> session \<Rightarrow> datetime \<Rightarrow> string \<Rightarrow> string \<Rightarrow> string \<Rightarrow> outcome" where
  "get_student_by_id ucd self session now campus_code roll_number authen =
     (let c = checksum_k (checksum self) now roll_number campus_code;
          url = py_format (BASE_URL self) @ ''/GetStudentById'';
          params =
            [(''campusCode'', campus_code), (''rollNumber'', roll_number),
             (''Authen'', authen), (''checksum'', c)]
      in make_request ucd session ''GET'' url (Some params) None True)"

definition get_student_rate ::
  "unicode_tables \<Rightarrow> api \<Rightarrow> session \<Rightarrow> datetime \<Rightarrow> string \<Rightarrow> string \<Rightarrow> string \<Rightarrow> outcome" where
  "get_student_rate ucd self session now campus_code roll_number authen =
     (let c = checksum_k (checksum self) now roll_number campus_code;
          url = py_format (BASE_URL self) @ ''/GetStudentRate'';
          params =
            [(''campusCode'', campus_code), (''rollNumber'', roll_number),
             (''Authen'', authen), (''checksum'', c)]
      in make_request ucd session ''GET'' url (Some params) None True)"

definition add_rate ::
  "unicode_tables \<Rightarrow> api \<Rightarrow> session \<Rightarrow> datetime \<Rightarrow> string \<Rightarrow> string \<Rightarrow> string \<Rightarrow> string \<Rightarrow> string \<Rightarrow> outcome" where
  "add_rate ucd self session now campus_code authen rate_id rate_value rate_comment =
     (let c = checksum_k (checksum self) now rate_id campus_code;
          url = py_format (BASE_URL self) @ ''/AddRate'';
          params =
            [(''campusCode'', campus_code), (''Authen'', authen),
             (''rateid'', rate_id), (''rateValue'', rate_value),
             (''rateComment'', rate_comment), (''checksum'', c)]
      in make_request ucd session ''POST'' url (Some params) None True)"

definition get_balance ::
  "unicode_tables \<Rightarrow> api \<Rightarrow> session \<Rightarrow> datetime \<Rightarrow> string \<Rightarrow> string \<Rightarrow> string \<Rightarrow> outcome" where
  "get_balance ucd self session now campus_code roll_number authen =
     (let c = checksum_k (checksum self) now roll_number campus_code;
          url = py_format (BASE_URL self) @ ''/GetBalance'';
          params =
            [(''campusCode'', campus_code), (''rollNumber'', roll_number),
             (''Authen'', authen), (''checksum'', c)]
      in make_request ucd session ''GET'' url (Some params) None True)"

definition get_fee_by_roll ::
  "unicode_tables \<Rightarrow> api \<Rightarrow> session \<Rightarrow> datetime \<Rightarrow> string \<Rightarrow> string \<Rightarrow> string \<Rightarrow> outcome" where
  "get_fee_by_roll ucd self session now campus_code roll_number authen =
     (let c = checksum_k (checksum self) now roll_number campus_code;
          url = py_format (BASE_URL self) @ ''/GeFeeByRoll'';
          params =
            [(''campusCode'', campus_code), (''rollNumber'', roll_number),
             (''Authen'', authen), (''checksum'', c)]
      in make_request ucd session ''GET'' url (Some params) None True)"

definition get_application ::
  "unicode_tables \<Rightarrow> api \<Rightarrow> session \<Rightarrow> datetime \<Rightarrow> string \<Rightarrow> string \<Rightarrow> string \<Rightarrow> outcome" where
  "get_application ucd self session now campus_code roll_number authen =
     (let c = checksum_k (checksum self) now roll_number campus_code;
          url = py_format (BASE_URL self) @ ''/GetApplication'';
          params =
            [(''campusCode'', campus_code), (''rollNumber'', roll_number),
             (''Authen'', authen), (''checksum'', c)]
      in make_request ucd session ''GET'' url (Some params) None True)"

definition retrieve_image ::
  "unicode_tables \<Rightarrow> api \<Rightarrow> session \<Rightarrow> datetime \<Rightarrow> string \<Rightarrow> string \<Rightarrow> string \<Rightarrow> outcome" where
  "retrieve_image ucd self session now campus_code roll_number authen =
     (let c = checksum_k (checksum self) now roll_number campus_code;
          url = py_format (BASE_URL self) @ ''/RetriveImage'';
          params =
            [(''campusCode'', campus_code), (''rollNumber'', roll_number),
             (''Authen'', authen), (''checksum'', c)]
      in make_request ucd session ''GET'' url (Some params) None True)"

definition get_diemphongtrao ::
  "unicode_tables \<Rightarrow> api \<Rightarrow> session \<Rightarrow> datetime \<Rightarrow> string \<Rightarrow> string \<Rightarrow> string \<Rightarrow> string \<Rightarrow> outcome" where
  "get_diemphongtrao ucd self session now campus_code roll_number semester authen =
     (let c = checksum_k (checksum self) now roll_number campus_code;
          url = py_format (BASE_URL self) @ ''/GetDiemphongtrao'';
          params =
            [(''campusCode'', campus_code), (''rollNumber'', roll_number),
             (''semester'', semester), (''Authen'', authen),
             (''checksum'', c)]
      in make_request ucd session ''GET'' url (Some params) None True)"

definition get_activity_student ::
  "unicode_tables \<Rightarrow> api \<Rightarrow> session \<Rightarrow> datetime \<Rightarrow> string \<Rightarrow> string \<Rightarrow> string \<Rightarrow> string \<Rightarrow> outcome" where
  "get_activity_student ucd self session now campus_code semester roll_number authen =
     (let c = checksum_k (checksum self) now roll_number campus_code;
          url = py_format (BASE_URL self) @ ''/GetActivityStudent'';
          params =
            [(''campusCode'', campus_code), (''rollNumber'', roll_number),
             (''Semester'', semester), (''Authen'', authen),
             (''checksum'', c)]
      in make_request ucd session ''GET'' url (Some params) None True)"

definition get_activity_student_by_week ::
  "unicode_tables \<Rightarrow> api \<Rightarrow> session \<Rightarrow> datetime \<Rightarrow> string \<Rightarrow> string \<Rightarrow> string \<Rightarrow> string \<Rightarrow> string \<Rightarrow> string \<Rightarrow> outcome" where
  "get_activity_student_by_week ucd self session now campus_code week roll_number semester yr authen =
     (let c = checksum_k (checksum self) now roll_number campus_code;
          url = py_format (BASE_URL self) @ ''/GetActivityStudentByWeek'';
          params =
            [(''campusCode'', campus_code), (''week'', week),
             (''rollNumber'', roll_number), (''Semester'', semester),
             (''year'', yr), (''Authen'', authen), (''checksum'', c)]
      in make_request ucd session ''GET'' url (Some params) None True)"

definition get_notification_by_roll ::
  "unicode_tables \<Rightarrow> api \<Rightarrow> session \<Rightarrow> datetime \<Rightarrow> string \<Rightarrow> string \<Rightarrow> string \<Rightarrow> outcome" where
  "get_notification_by_roll ucd self session now campus_code roll_number authen =
     (let c = checksum_k (checksum self) now roll_number campus_code;
          url = py_format (BASE_URL self) @ ''/GetNotificationByRoll'';
          params =
            [(''campusCode'', campus_code), (''rollNumber'', roll_number),
             (''Authen'', authen), (''checksum'', c)]
      in make_request ucd session ''GET'' url (Some params) None True)"

definition get_all_active_campus ::
  "unicode_tables \<Rightarrow> api \<Rightarrow> session \<Rightarrow> outcome" where
  "get_all_active_campus ucd self session =
     (let url = py_format (BASE_URL self) @ ''/GetAllActiveCampus''
      in make_request ucd session ''GET'' url None None True)"

definition get_version ::
  "unicode_tables \<Rightarrow> api \<Rightarrow> session \<Rightarrow> outcome" where
  "get_version ucd self session =
     (let url = py_format (BASE_URL self) @ ''/GetVersion''
      in make_request ucd session ''GET'' url None None True)"

definition get_campus_info ::
  "unicode_tables \<Rightarrow> api \<Rightarrow> session \<Rightarrow> datetime \<Rightarrow> string \<Rightarrow> string \<Rightarrow> string \<Rightarrow> outcome" where
  "get_campus_info ucd self session now campus_code roll_number authen =
     (let c = checksum_k (checksum self) now roll_number campus_code;
          url = py_format (BASE_URL self) @ ''/GetCampusInfo'';
          params =
            [(''campusCode'', campus_code), (''rollNumber'', roll_number),
             (''Authen'', authen), (''checksum'', c)]
      in make_request ucd session ''GET'' url (Some params) None True)"

definition check_open_feedback ::
  "unicode_tables \<Rightarrow> api \<Rightarrow> session \<Rightarrow> datetime \<Rightarrow> string \<Rightarrow> string \<Rightarrow> string \<Rightarrow> outcome" where
  "check_open_feedback ucd self session now campus_code roll_number authen =
     (let c = checksum_k (checksum self) now roll_number campus_code;
          url = py_format (BASE_URL self) @ ''/CheckOpenFeedBack'';
          params =
            [(''campusCode'', campus_code), (''rollNumber'', roll_number),
             (''Authen'', authen), (''checksum'', c)]
      in make_request ucd session ''GET'' url (Some params) None True)"

definition check_update_profile ::
  "unicode_tables \<Rightarrow> api \<Rightarrow> session \<Rightarrow> datetime \<Rightarrow> string \<Rightarrow> string \<Rightarrow> string \<Rightarrow> outcome" where
  "check_update_profile ucd self session now campus_code roll_number authen =
     (let c = checksum_k (checksum self) now roll_number campus_code;
          url = py_format (BASE_URL self) @ ''/CheckUpdateProfile'';
          params =
            [(''campusCode'', campus_code), (''rollNumber'', roll_number),
             (''Authen'', authen), (''checksum'', c)]
      in make_request ucd session ''GET'' url (Some params) None True)"

definition get_required_survey ::
  "unicode_tables \<Rightarrow> api \<Rightarrow> session \<Rightarrow> datetime \<Rightarrow> string \<Rightarrow> outcome" where
  "get_required_survey ucd self session now username =
     (let c = checksum_y (checksum self) now (py_strip ucd (py_lower ucd username)) [];
          url = py_format (GOOGLE_AUTH_URL self) @ ''/GetRequiredSurvey'';
          params =
            [(''username'', py_strip ucd (py_lower ucd username)),
             (''checksum'', c)]
      in make_request ucd session ''GET'' url (Some params) None True)"

definition get_semester ::
  "unicode_tables \<Rightarrow> api \<Rightarrow> session \<Rightarrow> datetime \<Rightarrow> string \<Rightarrow> string \<Rightarrow> outcome" where
  "get_semester ucd self session now campus_code authen =
     (let c = checksum_a (checksum self) now campus_code;
          url = py_format (BASE_URL self) @ ''/GetSemester'';
          params =
            [(''campusCode'', campus_code), (''Authen'', authen),
             (''checksum'', c)]
      in make_request ucd session ''GET'' url (Some params) None True)"

definition get_subject_by_semester ::
  "unicode_tables \<Rightarrow> api \<Rightarrow> session \<Rightarrow> datetime \<Rightarrow> string \<Rightarrow> string \<Rightarrow> string \<Rightarrow> outcome" where
  "get_subject_by_semester ucd self session now campus_code semester authen =
     (let c = checksum_k (checksum self) now [] campus_code;
          url = py_format (BASE_URL self) @ ''/GetSubjectBySemester'';
          params =
            [(''campusCode'', campus_code), (''Semester'', semester),
             (''Authen'', authen), (''checksum'', c)]
      in make_request ucd session ''GET'' url (Some params) None True)"

definition get_week_by_date ::
  "unicode_tables \<Rightarrow> api \<Rightarrow> session \<Rightarrow> datetime \<Rightarrow> string \<Rightarrow> outcome" where
  "get_week_by_date ucd self session now timestamp =
     (let c = checksum_a (checksum self) now timestamp;
          url = py_format (BASE_URL self) @ ''/GetWeekByDate'';
          params =
            [(''date'', timestamp)]
      in make_request ucd session ''GET'' url (Some params) None True)"

definition get_student_attendances ::
  "unicode_tables \<Rightarrow> api \<Rightarrow> session \<Rightarrow> datetime \<Rightarrow> string \<Rightarrow> string \<Rightarrow> string \<Rightarrow> string \<Rightarrow> outcome" where
  "get_student_attendances ucd self session now campus_code semester roll_number authen =
     (let c = checksum_k (checksum self) now roll_number campus_code;
          url = py_format (BASE_URL self) @ ''/GetStudentAttendances'';
          params =
            [(''campusCode'', campus_code), (''Semester'', semester),
             (''rollNumber'', roll_number), (''Authen'', authen),
             (''checksum'', c)]
      in make_request ucd session ''GET'' url (Some params) None True)"

definition get_exam_schedule ::
  "unicode_tables \<Rightarrow> api \<Rightarrow> session \<Rightarrow> datetime \<Rightarrow> string \<Rightarrow> string \<Rightarrow> string \<Rightarrow> string \<Rightarrow> outcome" where
  "get_exam_schedule ucd self session now campus_code semester roll_number authen =
     (let c = checksum_k (checksum self) now roll_number campus_code;
          url = py_format (BASE_URL self) @ ''/GetScheduleExam'';
          params =
            [(''campusCode'', campus_code), (''rollNumber'', roll_number),
             (''Semester'', semester), (''Authen'', authen),
             (''checksum'', c)]
      in make_request ucd session ''GET'' url (Some params) None True)"

definition get_student_mark ::
  "unicode_tables \<Rightarrow> api \<Rightarrow> session \<Rightarrow> datetime \<Rightarrow> string \<Rightarrow> string \<Rightarrow> string \<Rightarrow> string \<Rightarrow> outcome" where
  "get_student_mark ucd self session now campus_code semester roll_number authen =
     (let c = checksum_k (checksum self) now roll_number campus_code;
          url = py_format (BASE_URL self) @ ''/GetStudentMark'';
          params =
            [(''campusCode'', campus_code), (''rollNumber'', roll_number),
             (''Semester'', semester), (''Authen'', authen),
             (''checksum'', c)]
      in make_request ucd session ''GET'' url (Some params) None True)"

definition get_top10_news ::
  "unicode_tables \<Rightarrow> api \<Rightarrow> session \<Rightarrow> datetime \<Rightarrow> string \<Rightarrow> string \<Rightarrow> string \<Rightarrow> outcome" where
  "get_top10_news ucd self session now campus_code authen news_type =
     (let c = checksum_k (checksum self) now news_type campus_code;
          url = py_format (BASE_URL self) @ ''/GetTop10News'';
          params =
            [(''campusCode'', campus_code), (''Authen'', authen),
             (''type'', news_type), (''checksum'', c)]
      in make_request ucd session ''GET'' url (Some params) None True)"

text \<open>The operations of the client as data, to state what holds of all of them.\<close>

datatype client_op =
    Get_student_by_id string string string
  | Get_student_rate string string string
  | Add_rate string string string string string
  | Get_balance string string string
  | Get_fee_by_roll string string string
  | Get_application string string string
  | Retrieve_image string string string
  | Get_diemphongtrao string string string string
  | Get_activity_student string string string string
  | Get_activity_student_by_week string string string string string string
  | Get_notification_by_roll string string string
  | Get_all_active_campus
  | Get_version
  | Get_campus_info string string string
  | Check_open_feedback string string string
  | Check_update_profile string string string
  | Get_required_survey string
  | Get_semester string string
  | Get_subject_by_semester string string string
  | Get_week_by_date string
  | Get_student_attendances string string string string
  | Get_exam_schedule string string string string
  | Get_student_mark string string string string
  | Get_top10_news string string string

fun call_op :: "unicode_tables \<Rightarrow> api \<Rightarrow> session \<Rightarrow> datetime \<Rightarrow> client_op \<Rightarrow> outcome" where
  "call_op ucd self session now (Get_student_by_id campus_code roll_number authen) =
     get_student_by_id ucd self session now campus_code roll_number authen"
| "call_op ucd self session now (Get_student_rate campus_code roll_number authen) =
     get_student_rate ucd self session now campus_code roll_number authen"
| "call_op ucd self session now (Add_rate campus_code authen rate_id rate_value rate_comment) =
     add_rate ucd self session now campus_code authen rate_id rate_value rate_comment"
| "call_op ucd self session now (Get_balance campus_code roll_number authen) =
     get_balance ucd self session now campus_code roll_number authen"
| "call_op ucd self session now (Get_fee_by_roll campus_code roll_number authen) =
     get_fee_by_roll ucd self session now campus_code roll_number authen"
| "call_op ucd self session now (Get_application campus_code roll_number authen) =
     get_application ucd self session now campus_code roll_number authen"
| "call_op ucd self session now (Retrieve_image campus_code roll_number authen) =
     retrieve_image ucd self session now campus_code roll_number authen"
| "call_op ucd self session now (Get_diemphongtrao campus_code roll_number semester authen) =
     get_diemphongtrao ucd self session now campus_code roll_number semester authen"
| "call_op ucd self session now (Get_activity_student campus_code semester roll_number authen) =
     get_activity_student ucd self session now campus_code semester roll_number authen"
| "call_op ucd self session now (Get_activity_student_by_week campus_code week roll_number semester yr authen) =
     get_activity_student_by_week ucd self session now campus_code week roll_number semester yr authen"
| "call_op ucd self session now (Get_notification_by_roll campus_code roll_number authen) =
     get_notification_by_roll ucd self session now campus_code roll_number authen"
| "call_op ucd self session now Get_all_active_campus =
     get_all_active_campus ucd self session"
| "call_op ucd self session now Get_version =
     get_version ucd self session"
| "call_op ucd self session now (Get_campus_info campus_code roll_number authen) =
     get_campus_info ucd self session now campus_code roll_number authen"
| "call_op ucd self session now (Check_open_feedback campus_code roll_number authen) =
     check_open_feedback ucd self session now campus_code roll_number authen"
| "call_op ucd self session now (Check_update_profile campus_code roll_number authen) =
     check_update_profile ucd self session now campus_code roll_number authen"
| "call_op ucd self session now (Get_required_survey username) =
     get_required_survey ucd self session now username"
| "call_op ucd self session now (Get_semester campus_code authen) =
     get_semester ucd self session now campus_code authen"
| "call_op ucd self session now (Get_subject_by_semester campus_code semester authen) =
     get_subject_by_semester ucd self session now campus_code semester authen"
| "call_op ucd self session now (Get_week_by_date timestamp) =
     get_week_by_date ucd self session now timestamp"
| "call_op ucd self session now (Get_student_attendances campus_code semester roll_number authen) =
     get_student_attendances ucd self session now campus_code semester roll_number authen"
| "call_op ucd self session now (Get_exam_schedule campus_code semester roll_number authen) =
     get_exam_schedule ucd self session now campus_code semester roll_number authen"
| "call_op ucd self session now (Get_student_mark campus_code semester roll_number authen) =
     get_student_mark ucd self session now campus_code semester roll_number authen"
| "call_op ucd self session now (Get_top10_news campus_code authen news_type) =
     get_top10_news ucd self session now campus_code authen news_type"

section \<open>Properties of the signer\<close>

subsection \<open>The escape step\<close>

lemma replace_from_single:
  "replace_from [a] new s = concat (map (\<lambda>c. if c = a then new else [c]) s)"
proof (induction s)
  case Nil
  show ?case by (subst replace_from.simps) simp
next
  case (Cons x xs)
  have "replace_from [a] new (x # xs) =
      (if x = a then new @ replace_from [a] new xs else x # replace_from [a] new xs)"
    by (subst replace_from.simps) simp
  then show ?case using Cons by simp
qed

lemma url_encode_checksum_charwise:
  "url_encode_checksum s =
     concat (map (\<lambda>c. if c = CHR ''='' then ''%3d'' else if c = CHR '' '' then ''+'' else [c]) s)"
  by (induction s) (simp_all add: url_encode_checksum_def py_replace_def replace_from_single)

lemma url_encode_checksum_spec: "url_encode_checksum s = spec_escape s"
  by (simp add: url_encode_checksum_charwise spec_escape_def)

lemma url_encode_checksum_fixed:
  "CHR ''='' \<notin> set s \<Longrightarrow> CHR '' '' \<notin> set s \<Longrightarrow> url_encode_checksum s = s"
  by (induction s) (auto simp: url_encode_checksum_charwise)

text \<open>
  C9: \<open>url_encode_checksum\<close> replaces every \<open>=\<close> by the three characters \<open>%3d\<close> and
  every space by \<open>+\<close> and leaves every other character as it is; on an input
  with neither \<open>=\<close> nor space it returns the input, so applying it twice is the
  same as applying it once.
\<close>

theorem url_encode_checksum_escapes:
  "url_encode_checksum s =
     concat (map (\<lambda>c. if c = CHR ''='' then ''%3d'' else if c = CHR '' '' then ''+'' else [c]) s)
   \<and> (CHR ''='' \<notin> set s \<and> CHR '' '' \<notin> set s \<longrightarrow>
        url_encode_checksum s = s \<and>
        url_encode_checksum (url_encode_checksum s) = url_encode_checksum s)"
  using url_encode_checksum_fixed [of s] by (simp add: url_encode_checksum_charwise)

theorem url_encode_checksum_escapes_witness:
  "CHR ''='' \<notin> set ''aZ9+/'' \<and> CHR '' '' \<notin> set ''aZ9+/'' \<and>
   url_encode_checksum ''aZ9+/'' = ''aZ9+/'' \<and>
   url_encode_checksum (url_encode_checksum ''aZ9+/'') = url_encode_checksum ''aZ9+/'' \<and>
   url_encode_checksum ''a= b=='' = ''a%3d+b%3d%3d''"
  using url_encode_checksum_escapes [of "''aZ9+/''"] url_encode_checksum_escapes [of "''a= b==''"]
  by simp

subsection \<open>The three variants\<close>

text \<open>
  C1: for all secrets and inputs, empty strings included, each variant returns
  what the scheme of the specification gives for its template and key:
  variant K signs identifier, shared code, campus code and timestamp slot under
  the main key, variant Y the same template with the username under the
  alternative key, variant A the long key, the parameter and the timestamp slot
  under the main key; the message is the concatenation of the slots, the tag is
  the base64 text of its HMAC-SHA-1 digest, escaped.
\<close>

theorem signing_variants_follow_templates:
  "checksum_k self now identifier campus =
     spec_sign (SECRET_KEY_MAIN self)
       [identifier, SUPER_SECRET_CODE self, campus, get_timestamp now]
   \<and> checksum_y self now username campus =
     spec_sign (SECRET_KEY_ALT self)
       [username, SUPER_SECRET_CODE self, campus, get_timestamp now]
   \<and> checksum_a self now parameter =
     spec_sign (SECRET_KEY_MAIN self) [SECRET_KEY_LONG self, parameter, get_timestamp now]"
  by (simp add: checksum_k_def checksum_y_def checksum_a_def spec_sign_def generate_hmac_def
      url_encode_checksum_spec)

subsection \<open>The hour window\<close>

lemma timestamp_example:
  "get_timestamp \<lparr>year = 2024, month = 5, day = 7, hour = 9, minute = 3, second = 11,
                   microsecond = 0\<rparr> = ''07/05/2024 09:00''"
  by code_simp

text \<open>
  C7: the signature depends on the clock only through the timestamp slot, so
  with the same secrets, inputs and slot it is the same string; and two clock
  readings with the same year, month, day and hour give the same slot and
  hence the same signatures, whatever their minutes and seconds.
\<close>

theorem signing_deterministic_within_hour:
  "(get_timestamp n1 = get_timestamp n2 \<longrightarrow>
      checksum_k self n1 roll_number campus_code = checksum_k self n2 roll_number campus_code)
   \<and> (year n1 = year n2 \<and> month n1 = month n2 \<and> day n1 = day n2 \<and> hour n1 = hour n2 \<longrightarrow>
        get_timestamp n1 = get_timestamp n2 \<and>
        checksum_k self n1 roll_number campus_code = checksum_k self n2 roll_number campus_code \<and>
        checksum_y self n1 username campus_code = checksum_y self n2 username campus_code \<and>
        checksum_a self n1 parameter = checksum_a self n2 parameter)"
proof -
  have slot: "get_timestamp n1 = get_timestamp n2"
    if "year n1 = year n2 \<and> month n1 = month n2 \<and> day n1 = day n2 \<and> hour n1 = hour n2"
    using that by (simp add: get_timestamp_def)
  have same: "checksum_k self n1 r c = checksum_k self n2 r c
      \<and> checksum_y self n1 u c = checksum_y self n2 u c
      \<and> checksum_a self n1 p = checksum_a self n2 p"
    if "get_timestamp n1 = get_timestamp n2" for r c u p
    using that by (simp add: checksum_k_def checksum_y_def checksum_a_def)
  show ?thesis using slot same by blast
qed

theorem signing_deterministic_within_hour_witness:
  "get_timestamp \<lparr>year = 2024, month = 5, day = 7, hour = 9, minute = 3, second = 11,
                   microsecond = 0\<rparr> = ''07/05/2024 09:00''
   \<and> get_timestamp \<lparr>year = 2024, month = 5, day = 7, hour = 9, minute = 58, second = 40,
                     microsecond = 7\<rparr> = ''07/05/2024 09:00''
   \<and> checksum_k \<lparr>SECRET_KEY_MAIN = ''m'', SECRET_KEY_ALT = ''a'', SECRET_KEY_LONG = ''l'',
                  SUPER_SECRET_CODE = ''s''\<rparr>
        \<lparr>year = 2024, month = 5, day = 7, hour = 9, minute = 3, second = 11, microsecond = 0\<rparr>
        ''SE1'' ''HN''
     = checksum_k \<lparr>SECRET_KEY_MAIN = ''m'', SECRET_KEY_ALT = ''a'', SECRET_KEY_LONG = ''l'',
                    SUPER_SECRET_CODE = ''s''\<rparr>
        \<lparr>year = 2024, month = 5, day = 7, hour = 9, minute = 58, second = 40, microsecond = 7\<rparr>
        ''SE1'' ''HN''"
  using signing_deterministic_within_hour
    [of "\<lparr>year = 2024, month = 5, day = 7, hour = 9, minute = 3, second = 11, microsecond = 0\<rparr>"
      "\<lparr>year = 2024, month = 5, day = 7, hour = 9, minute = 58, second = 40, microsecond = 7\<rparr>"
      "\<lparr>SECRET_KEY_MAIN = ''m'', SECRET_KEY_ALT = ''a'', SECRET_KEY_LONG = ''l'',
        SUPER_SECRET_CODE = ''s''\<rparr>" "''SE1''" "''HN''"]
  by (simp add: timestamp_example)

section \<open>Properties of the client\<close>

subsection \<open>Evaluating the string methods\<close>

lemma upper_put: "is_ascii ''put'' \<and> map upper_char ''put'' = ''PUT''"
  by code_simp

lemma lower_example:
  "is_ascii ''  USER@Example.com '' \<and>
   map lower_char ''  USER@Example.com '' = ''  user@example.com ''"
  by code_simp

lemma strip_example:
  "is_ascii ''  user@example.com '' \<and>
   rev (dropWhile is_space (rev (dropWhile is_space ''  user@example.com ''))) =
     ''user@example.com''"
  by code_simp

lemma py_upper_GET: "py_upper ucd ''GET'' = ''GET''"
  by (simp add: py_upper_def is_ascii_def upper_char_def)

lemma py_upper_POST: "py_upper ucd ''POST'' = ''POST''"
  by (simp add: py_upper_def is_ascii_def upper_char_def)

lemma py_upper_put: "py_upper ucd ''put'' = ''PUT''"
  using upper_put by (simp add: py_upper_def)

lemma normalized_example:
  "py_strip ucd (py_lower ucd ''  USER@Example.com '') = ''user@example.com''"
  using lower_example strip_example by (simp add: py_lower_def py_strip_def)

subsection \<open>\<open>_make_request\<close> by method\<close>

lemma make_request_GET:
  "py_upper ucd method = ''GET'' \<Longrightarrow>
   make_request ucd session method url params data use_json =
     (except_Exception
        (case session \<lparr>call_verb = GET, call_url = url, call_params = params,
                        call_json = None, call_data = None\<rparr> of
           Inl e \<Rightarrow> Inl e | Inr r \<Rightarrow> classify r),
      [\<lparr>call_verb = GET, call_url = url, call_params = params,
         call_json = None, call_data = None\<rparr>])"
  by (simp add: make_request_def send_def)

lemma make_request_POST:
  "py_upper ucd method = ''POST'' \<Longrightarrow>
   make_request ucd session method url params data use_json =
     (except_Exception
        (case session \<lparr>call_verb = POST, call_url = url, call_params = params,
                        call_json = (if use_json then data else None),
                        call_data = (if use_json then None else data)\<rparr> of
           Inl e \<Rightarrow> Inl e | Inr r \<Rightarrow> classify r),
      [\<lparr>call_verb = POST, call_url = url, call_params = params,
         call_json = (if use_json then data else None),
         call_data = (if use_json then None else data)\<rparr>])"
  by (simp add: make_request_def send_def)

lemma make_request_unsupported:
  "py_upper ucd method \<noteq> ''GET'' \<Longrightarrow> py_upper ucd method \<noteq> ''POST'' \<Longrightarrow>
   make_request ucd session method url params data use_json =
     (Inr (error_envelope (ValueError (''Unsupported HTTP method: '' @ method))), [])"
  by (simp add: make_request_def except_Exception_def ValueError_def)

lemma make_request_const_session:
  assumes "py_upper ucd method = ''GET'' \<or> py_upper ucd method = ''POST''"
  shows "fst (make_request ucd (\<lambda>c. x) method url params data use_json) =
           except_Exception (case x of Inl e \<Rightarrow> Inl e | Inr r \<Rightarrow> classify r)"
  using assms by (auto simp: make_request_GET make_request_POST)

subsection \<open>Classifying a response\<close>

lemma classify_unparseable:
  "json_result r = Inl e \<Longrightarrow> classify r = Inr (success_envelope (status_code r = 200) r PNone)"
  by (simp add: classify_def)

lemma classify_null:
  "json_result r = Inr PNone \<Longrightarrow>
   classify r = Inr (success_envelope (status_code r = 200) r PNone)"
  by (simp add: classify_def)

lemma classify_object:
  assumes "json_result r = Inr (PDict kvs)"
  shows "classify r =
     Inr (success_envelope
            (status_code r = 200 \<and> (\<forall>v. map_of kvs ''code'' = Some v \<longrightarrow> v = PStr ''200''))
            r (PDict kvs))"
proof (cases "map_of kvs ''code''")
  case None
  then have "''code'' \<notin> fst ` set kvs"
    by (simp add: map_of_eq_None_iff)
  with None assms show ?thesis
    by (simp add: classify_def Let_def)
next
  case (Some a)
  then have "''code'' \<in> fst ` set kvs"
    by (metis map_of_eq_None_iff option.distinct(1))
  moreover have "kvs \<noteq> []"
    using Some by auto
  ultimately show ?thesis
    using Some assms by (simp add: classify_def Let_def)
qed

text \<open>
  Where the body is a JSON object, \<open>null\<close> or not JSON at all, the envelope has
  \<open>raw_response\<close> and no \<open>error\<close>, and \<open>success\<close> holds exactly when the status
  is 200 and the \<open>code\<close> field, if the object has one, is the string \<open>200\<close>.
\<close>

lemma success_flag_on_object_bodies:
  assumes "py_upper ucd method = ''GET'' \<or> py_upper ucd method = ''POST''"
    and "json_result r = Inr (PDict kvs)"
  shows "fst (make_request ucd (\<lambda>c. Inr r) method url params data use_json) =
           Inr [(''success'',
                 PBool (status_code r = 200 \<and>
                        (\<forall>v. map_of kvs ''code'' = Some v \<longrightarrow> v = PStr ''200''))),
                (''status_code'', PInt (status_code r)),
                (''data'', PDict kvs),
                (''raw_response'', PStr (raw_text r))]"
  using assms
  by (simp add: make_request_const_session classify_object except_Exception_def
      success_envelope_def)

lemma success_flag_on_null_body:
  assumes "py_upper ucd method = ''GET'' \<or> py_upper ucd method = ''POST''"
    and "json_result r = Inr PNone"
  shows "fst (make_request ucd (\<lambda>c. Inr r) method url params data use_json) =
           Inr [(''success'', PBool (status_code r = 200)),
                (''status_code'', PInt (status_code r)),
                (''data'', PNone),
                (''raw_response'', PStr (raw_text r))]"
  using assms
  by (simp add: make_request_const_session classify_null except_Exception_def
      success_envelope_def)

lemma code_400_body_example:
  "fst (make_request ucd
         (\<lambda>c. Inr \<lparr>status_code = 200, raw_text = body,
                    json_result = Inr (PDict [(''code'', PStr ''400'')])\<rparr>)
         ''GET'' url params None True) =
     Inr [(''success'', PBool False),
          (''status_code'', PInt 200),
          (''data'', PDict [(''code'', PStr ''400'')]),
          (''raw_response'', PStr body)]"
  by (simp add: success_flag_on_object_bodies py_upper_GET)

lemma integer_code_200_body_example:
  "fst (make_request ucd
         (\<lambda>c. Inr \<lparr>status_code = 200, raw_text = body,
                    json_result = Inr (PDict [(''code'', PInt 200)])\<rparr>)
         ''GET'' url params None True) =
     Inr [(''success'', PBool False),
          (''status_code'', PInt 200),
          (''data'', PDict [(''code'', PInt 200)]),
          (''raw_response'', PStr body)]"
  by (simp add: success_flag_on_object_bodies py_upper_GET)

text \<open>
  C2: the success flag is meant to be true exactly when the status is 200 and
  the \<open>code\<close> field, where the body has one, is the string \<open>200\<close>. A response
  with status 200 whose body is the JSON value \<open>true\<close> has no \<open>code\<close> field, yet
  the membership test on a \<open>bool\<close> raises a \<open>TypeError\<close> that the handler turns
  into the envelope of a failure: \<open>success\<close> is false and \<open>status_code\<close> is
  \<open>None\<close>.
\<close>

theorem bare_true_body_yields_failure:
  "make_request ucd
     (\<lambda>c. Inr \<lparr>status_code = 200, raw_text = ''true'', json_result = Inr (PBool True)\<rparr>)
     ''GET'' ''http://host/CheckOpenFeedBack'' None None True =
   (Inr [(''success'', PBool False),
         (''error'', PStr (''argument of type '' @ quoted ''bool'' @ '' is not iterable'')),
         (''status_code'', PNone),
         (''data'', PNone)],
    [\<lparr>call_verb = GET, call_url = ''http://host/CheckOpenFeedBack'', call_params = None,
       call_json = None, call_data = None\<rparr>])"
  by (simp add: make_request_GET py_upper_GET except_Exception_def classify_def
      error_envelope_def TypeError_def)

subsection \<open>Failures of the transport\<close>

lemmas op_defs =
  get_student_by_id_def get_student_rate_def add_rate_def get_balance_def get_fee_by_roll_def
  get_application_def retrieve_image_def get_diemphongtrao_def get_activity_student_def
  get_activity_student_by_week_def get_notification_by_roll_def get_all_active_campus_def
  get_version_def get_campus_info_def check_open_feedback_def check_update_profile_def
  get_required_survey_def get_semester_def get_subject_by_semester_def get_week_by_date_def
  get_student_attendances_def get_exam_schedule_def get_student_mark_def get_top10_news_def

text \<open>
  Whatever the operation, an exception of the session that derives from
  \<open>Exception\<close> is returned as the error envelope, which has \<open>error\<close> and no
  \<open>raw_response\<close>.
\<close>

lemma call_op_transport_failure:
  assumes "is_exception e"
  shows "fst (call_op ucd self (\<lambda>c. Inl e) now op) =
           Inr [(''success'', PBool False),
                (''error'', PStr (exn_str e)),
                (''status_code'', PNone),
                (''data'', PNone)]"
  using assms
  by (cases op)
     (simp_all add: op_defs Let_def make_request_GET make_request_POST py_upper_GET py_upper_POST
        except_Exception_def error_envelope_def)

text \<open>
  C3: a failure of the transport gives an envelope with \<open>error\<close> and without
  \<open>raw_response\<close>, and an envelope made from a response is meant to have
  \<open>raw_response\<close> and no \<open>error\<close>. \<open>get_version\<close> on a response with status 200
  and the JSON number 5 as body returns the envelope of a failure instead:
  \<open>error\<close> is there, \<open>raw_response\<close> is not, \<open>status_code\<close> is \<open>None\<close>.
\<close>

theorem get_version_number_body_looks_like_transport_failure:
  "get_version ucd self
     (\<lambda>c. Inr \<lparr>status_code = 200, raw_text = ''5'', json_result = Inr (PInt 5)\<rparr>) =
   (Inr [(''success'', PBool False),
         (''error'', PStr (''argument of type '' @ quoted ''int'' @ '' is not iterable'')),
         (''status_code'', PNone),
         (''data'', PNone)],
    [\<lparr>call_verb = GET, call_url = py_format (BASE_URL self) @ ''/GetVersion'',
       call_params = None, call_json = None, call_data = None\<rparr>])
   \<and> map_of [(''success'', PBool False),
              (''error'', PStr (''argument of type '' @ quoted ''int'' @ '' is not iterable'')),
              (''status_code'', PNone),
              (''data'', PNone)] ''raw_response'' = None"
  by (simp add: get_version_def make_request_GET py_upper_GET except_Exception_def classify_def
      error_envelope_def TypeError_def)

subsection \<open>Bodies that are not JSON\<close>

text \<open>
  C8: when \<open>response.json()\<close> raises, \<open>data\<close> is \<open>None\<close>, the envelope is the one
  of a response, with the text in \<open>raw_response\<close>, and \<open>success\<close> is decided by
  the status alone: true at status 200.
\<close>

theorem unparseable_body_is_not_a_failure:
  assumes "py_upper ucd method = ''GET'' \<or> py_upper ucd method = ''POST''"
    and "json_result r = Inl e"
  shows "fst (make_request ucd (\<lambda>c. Inr r) method url params data use_json) =
           Inr [(''success'', PBool (status_code r = 200)),
                (''status_code'', PInt (status_code r)),
                (''data'', PNone),
                (''raw_response'', PStr (raw_text r))]"
  using assms
  by (simp add: make_request_const_session except_Exception_def classify_unparseable
      success_envelope_def)

theorem unparseable_body_is_not_a_failure_witness:
  "\<forall>ucd.
     (py_upper ucd ''GET'' = ''GET'' \<or> py_upper ucd ''GET'' = ''POST'')
     \<and> json_result \<lparr>status_code = 200, raw_text = ''Bad Gateway'',
                      json_result = Inl (Raised ''JSONDecodeError'' True ''Expecting value'')\<rparr>
         = Inl (Raised ''JSONDecodeError'' True ''Expecting value'')
     \<and> fst (make_request ucd
              (\<lambda>c. Inr \<lparr>status_code = 200, raw_text = ''Bad Gateway'',
                         json_result =
                           Inl (Raised ''JSONDecodeError'' True ''Expecting value'')\<rparr>)
              ''GET'' ''http://host/GetVersion'' None None True) =
         Inr [(''success'', PBool True),
              (''status_code'', PInt 200),
              (''data'', PNone),
              (''raw_response'', PStr ''Bad Gateway'')]"
proof
  fix ucd
  show "(py_upper ucd ''GET'' = ''GET'' \<or> py_upper ucd ''GET'' = ''POST'')
     \<and> json_result \<lparr>status_code = 200, raw_text = ''Bad Gateway'',
                      json_result = Inl (Raised ''JSONDecodeError'' True ''Expecting value'')\<rparr>
         = Inl (Raised ''JSONDecodeError'' True ''Expecting value'')
     \<and> fst (make_request ucd
              (\<lambda>c. Inr \<lparr>status_code = 200, raw_text = ''Bad Gateway'',
                         json_result =
                           Inl (Raised ''JSONDecodeError'' True ''Expecting value'')\<rparr>)
              ''GET'' ''http://host/GetVersion'' None None True) =
         Inr [(''success'', PBool True),
              (''status_code'', PInt 200),
              (''data'', PNone),
              (''raw_response'', PStr ''Bad Gateway'')]"
    using unparseable_body_is_not_a_failure
      [of ucd "''GET''"
         "\<lparr>status_code = 200, raw_text = ''Bad Gateway'',
           json_result = Inl (Raised ''JSONDecodeError'' True ''Expecting value'')\<rparr>"
         "Raised ''JSONDecodeError'' True ''Expecting value''"
         "''http://host/GetVersion''" None None True]
    by (simp add: py_upper_GET)
qed

subsection \<open>Methods other than GET and POST\<close>

text \<open>
  C10: for a method whose \<open>upper()\<close> is neither \<open>GET\<close> nor \<open>POST\<close>, under
  whatever the Unicode tables are, \<open>_make_request\<close> hands no call to the session
  and returns normally: the \<open>ValueError\<close> it raises is caught by the handler, and
  the envelope is the one a failure of the transport with the same message
  would give.
\<close>

theorem unsupported_method_gives_error_envelope:
  assumes "py_upper ucd method \<noteq> ''GET''" and "py_upper ucd method \<noteq> ''POST''"
  shows "make_request ucd session method url params data use_json =
           (Inr [(''success'', PBool False),
                 (''error'', PStr (''Unsupported HTTP method: '' @ method)),
                 (''status_code'', PNone),
                 (''data'', PNone)], [])
         \<and> fst (make_request ucd session method url params data use_json) =
             fst (make_request ucd
                    (\<lambda>c. Inl (Raised ''ConnectionError'' True
                                 (''Unsupported HTTP method: '' @ method)))
                    ''GET'' url params data use_json)"
  using assms
  by (simp add: make_request_unsupported make_request_GET py_upper_GET except_Exception_def
      error_envelope_def ValueError_def)

theorem unsupported_method_gives_error_envelope_witness:
  "\<forall>ucd.
     py_upper ucd ''put'' \<noteq> ''GET'' \<and> py_upper ucd ''put'' \<noteq> ''POST''
     \<and> make_request ucd
          (\<lambda>c. Inr \<lparr>status_code = 200, raw_text = ''{}'', json_result = Inr (PDict [])\<rparr>)
          ''put'' ''http://host/AddRate'' None None True =
         (Inr [(''success'', PBool False),
               (''error'', PStr ''Unsupported HTTP method: put''),
               (''status_code'', PNone),
               (''data'', PNone)], [])"
proof
  fix ucd
  show "py_upper ucd ''put'' \<noteq> ''GET'' \<and> py_upper ucd ''put'' \<noteq> ''POST''
     \<and> make_request ucd
          (\<lambda>c. Inr \<lparr>status_code = 200, raw_text = ''{}'', json_result = Inr (PDict [])\<rparr>)
          ''put'' ''http://host/AddRate'' None None True =
         (Inr [(''success'', PBool False),
               (''error'', PStr ''Unsupported HTTP method: put''),
               (''status_code'', PNone),
               (''data'', PNone)], [])"
    using unsupported_method_gives_error_envelope
      [of ucd "''put''"
         "\<lambda>c. Inr \<lparr>status_code = 200, raw_text = ''{}'', json_result = Inr (PDict [])\<rparr>"
         "''http://host/AddRate''" None None True]
    by (simp add: py_upper_put)
qed

text \<open>
  A method that only the Unicode tables upper-case to \<open>POST\<close>, here \<open>po\<close>, the
  long s \<open>U+017F\<close> (bytes C5 BF) and \<open>t\<close>, is a POST: the call is made.
\<close>

lemma long_s_method_is_sent_as_post:
  assumes "upper_beyond_ascii ucd [CHR ''p'', CHR ''o'', CHR 0xC5, CHR 0xBF, CHR ''t''] = ''POST''"
  shows "snd (make_request ucd session [CHR ''p'', CHR ''o'', CHR 0xC5, CHR 0xBF, CHR ''t'']
                url params data True) =
           [\<lparr>call_verb = POST, call_url = url, call_params = params,
              call_json = data, call_data = None\<rparr>]"
proof -
  have "\<not> is_ascii [CHR ''p'', CHR ''o'', CHR 0xC5, CHR 0xBF, CHR ''t'']"
    by (simp add: is_ascii_def)
  then have "py_upper ucd [CHR ''p'', CHR ''o'', CHR 0xC5, CHR 0xBF, CHR ''t''] = ''POST''"
    using assms by (simp add: py_upper_def)
  then show ?thesis
    by (simp add: make_request_POST)
qed

subsection \<open>Two operations\<close>

text \<open>
  C5: \<open>get_week_by_date\<close> hands the session one GET call whose parameters are
  the date alone; there is no \<open>checksum\<close> parameter. The checksum it computes
  is not used: the result is the same under any secrets and any clock reading.
\<close>

theorem get_week_by_date_sends_only_date:
  "snd (get_week_by_date ucd self session now timestamp) =
     [\<lparr>call_verb = GET, call_url = py_format (BASE_URL self) @ ''/GetWeekByDate'',
       call_params = Some [(''date'', timestamp)], call_json = None, call_data = None\<rparr>]
   \<and> map_of [(''date'', timestamp)] ''checksum'' = None
   \<and> get_week_by_date ucd self session now timestamp =
       make_request ucd session ''GET'' (py_format (BASE_URL self) @ ''/GetWeekByDate'')
         (Some [(''date'', timestamp)]) None True
   \<and> get_week_by_date ucd (self\<lparr>checksum := secrets\<rparr>) session now' timestamp =
       get_week_by_date ucd self session now timestamp"
  by (simp add: get_week_by_date_def make_request_GET py_upper_GET Let_def)

text \<open>
  C6: for every username and whatever the Unicode tables are,
  \<open>get_required_survey\<close> takes \<open>username.lower().strip()\<close>, signs the message
  that starts with this form under the alternative key (variant Y, empty
  campus code), and sends the same form as the \<open>username\<close> parameter to the
  endpoint under \<open>GOOGLE_AUTH_URL\<close>; the username \<open>"  USER@Example.com "\<close> is
  signed and sent as \<open>user@example.com\<close>.
\<close>

theorem get_required_survey_normalizes_username:
  "snd (get_required_survey ucd self session now username) =
     [\<lparr>call_verb = GET, call_url = py_format (GOOGLE_AUTH_URL self) @ ''/GetRequiredSurvey'',
       call_params =
         Some [(''username'', py_strip ucd (py_lower ucd username)),
               (''checksum'',
                url_encode_checksum
                  (generate_hmac (SECRET_KEY_ALT (checksum self))
                     (py_strip ucd (py_lower ucd username) @ SUPER_SECRET_CODE (checksum self) @ []
                        @ get_timestamp now)))],
       call_json = None, call_data = None\<rparr>]
   \<and> snd (get_required_survey ucd self session now username) =
     [\<lparr>call_verb = GET, call_url = py_format (GOOGLE_AUTH_URL self) @ ''/GetRequiredSurvey'',
       call_params =
         Some [(''username'', py_strip ucd (py_lower ucd username)),
               (''checksum'',
                checksum_y (checksum self) now (py_strip ucd (py_lower ucd username)) [])],
       call_json = None, call_data = None\<rparr>]
   \<and> snd (get_required_survey ucd self session now ''  USER@Example.com '') =
     [\<lparr>call_verb = GET, call_url = py_format (GOOGLE_AUTH_URL self) @ ''/GetRequiredSurvey'',
       call_params =
         Some [(''username'', ''user@example.com''),
               (''checksum'',
                url_encode_checksum
                  (generate_hmac (SECRET_KEY_ALT (checksum self))
                     (''user@example.com'' @ SUPER_SECRET_CODE (checksum self) @ []
                        @ get_timestamp now)))],
       call_json = None, call_data = None\<rparr>]"
  by (simp add: get_required_survey_def make_request_GET py_upper_GET checksum_y_def
      normalized_example Let_def)

subsection \<open>Construction\<close>

text \<open>
  C4, as the claim states it: constructing the client is fatal when the base
  URL is missing. With the authentication key and the four secrets set and no
  \<open>BASE_URL\<close>, construction returns a client, whose \<open>BASE_URL\<close> is \<open>None\<close>.
\<close>

theorem construction_without_base_url_succeeds:
  "[''AUTHEN_KEY'' \<mapsto> ''token'', ''SECRET_KEY_MAIN'' \<mapsto> ''m'', ''SECRET_KEY_ALT'' \<mapsto> ''a'',
    ''SECRET_KEY_LONG'' \<mapsto> ''l'', ''SUPER_SECRET_CODE'' \<mapsto> ''s''] ''BASE_URL'' = None
   \<and> API_init [''AUTHEN_KEY'' \<mapsto> ''token'', ''SECRET_KEY_MAIN'' \<mapsto> ''m'',
                ''SECRET_KEY_ALT'' \<mapsto> ''a'', ''SECRET_KEY_LONG'' \<mapsto> ''l'',
                ''SUPER_SECRET_CODE'' \<mapsto> ''s''] =
       Inr \<lparr>AUTHEN_KEY = ''token'',
            checksum = \<lparr>SECRET_KEY_MAIN = ''m'', SECRET_KEY_ALT = ''a'',
                         SECRET_KEY_LONG = ''l'', SUPER_SECRET_CODE = ''s''\<rparr>,
            headers = [(''Content-Type'', ''application/json''),
                       (''User-Agent'', ''okhttp/3.12.1'')],
            BASE_URL = None, GOOGLE_AUTH_URL = None\<rparr>"
  by (simp add: API_init_def checksum_init_def truthy_opt_def)

text \<open>
  C4, amended: constructing the checksum component raises when one of the four
  secrets is absent or empty, and so does constructing the client; constructing
  the client raises when the authentication key is absent or empty; neither
  takes a session or reads the clock, so this is before any call or signature.
  The base URL is not looked at: with the key and the four secrets set the
  client is constructed, with whatever \<open>BASE_URL\<close> the environment has.
\<close>

theorem construction_fails_fast_on_key_and_secrets:
  "((\<exists>k \<in> set [''SECRET_KEY_MAIN'', ''SECRET_KEY_ALT'', ''SECRET_KEY_LONG'', ''SUPER_SECRET_CODE''].
        env k = None \<or> env k = Some []) \<longrightarrow>
      checksum_init env = Inl (ValueError missing_secrets_msg) \<and> (\<exists>e. API_init env = Inl e))
   \<and> (env ''AUTHEN_KEY'' = None \<or> env ''AUTHEN_KEY'' = Some [] \<longrightarrow>
        API_init env = Inl (ValueError missing_authen_msg))
   \<and> ((\<forall>k \<in> set [''AUTHEN_KEY'', ''SECRET_KEY_MAIN'', ''SECRET_KEY_ALT'', ''SECRET_KEY_LONG'',
                    ''SUPER_SECRET_CODE'']. env k \<noteq> None \<and> env k \<noteq> Some []) \<longrightarrow>
        (\<exists>a. API_init env = Inr a \<and> BASE_URL a = env ''BASE_URL''))"
  by (auto simp: API_init_def checksum_init_def truthy_opt_def Let_def split: option.splits)

theorem construction_fails_fast_on_key_and_secrets_witness:
  "[''AUTHEN_KEY'' \<mapsto> ''token'', ''SECRET_KEY_MAIN'' \<mapsto> ''m'', ''SECRET_KEY_ALT'' \<mapsto> '''',
    ''SECRET_KEY_LONG'' \<mapsto> ''l'', ''SUPER_SECRET_CODE'' \<mapsto> ''s''] ''SECRET_KEY_ALT'' = Some []
   \<and> checksum_init [''AUTHEN_KEY'' \<mapsto> ''token'', ''SECRET_KEY_MAIN'' \<mapsto> ''m'',
                     ''SECRET_KEY_ALT'' \<mapsto> '''', ''SECRET_KEY_LONG'' \<mapsto> ''l'',
                     ''SUPER_SECRET_CODE'' \<mapsto> ''s''] = Inl (ValueError missing_secrets_msg)
   \<and> [''SECRET_KEY_MAIN'' \<mapsto> ''m'', ''SECRET_KEY_ALT'' \<mapsto> ''a'', ''SECRET_KEY_LONG'' \<mapsto> ''l'',
       ''SUPER_SECRET_CODE'' \<mapsto> ''s'', ''BASE_URL'' \<mapsto> ''http://host''] ''AUTHEN_KEY'' = None
   \<and> API_init [''SECRET_KEY_MAIN'' \<mapsto> ''m'', ''SECRET_KEY_ALT'' \<mapsto> ''a'',
                ''SECRET_KEY_LONG'' \<mapsto> ''l'', ''SUPER_SECRET_CODE'' \<mapsto> ''s'',
                ''BASE_URL'' \<mapsto> ''http://host''] = Inl (ValueError missing_authen_msg)
   \<and> (\<exists>a. API_init [''AUTHEN_KEY'' \<mapsto> ''token'', ''SECRET_KEY_MAIN'' \<mapsto> ''m'',
                      ''SECRET_KEY_ALT'' \<mapsto> ''a'', ''SECRET_KEY_LONG'' \<mapsto> ''l'',
                      ''SUPER_SECRET_CODE'' \<mapsto> ''s''] = Inr a \<and> BASE_URL a = None)"
  using
    construction_fails_fast_on_key_and_secrets
      [of "[''AUTHEN_KEY'' \<mapsto> ''token'', ''SECRET_KEY_MAIN'' \<mapsto> ''m'', ''SECRET_KEY_ALT'' \<mapsto> '''',
            ''SECRET_KEY_LONG'' \<mapsto> ''l'', ''SUPER_SECRET_CODE'' \<mapsto> ''s'']"]
    construction_fails_fast_on_key_and_secrets
      [of "[''SECRET_KEY_MAIN'' \<mapsto> ''m'', ''SECRET_KEY_ALT'' \<mapsto> ''a'', ''SECRET_KEY_LONG'' \<mapsto> ''l'',
            ''SUPER_SECRET_CODE'' \<mapsto> ''s'', ''BASE_URL'' \<mapsto> ''http://host'']"]
    construction_fails_fast_on_key_and_secrets
      [of "[''AUTHEN_KEY'' \<mapsto> ''token'', ''SECRET_KEY_MAIN'' \<mapsto> ''m'', ''SECRET_KEY_ALT'' \<mapsto> ''a'',
            ''SECRET_KEY_LONG'' \<mapsto> ''l'', ''SUPER_SECRET_CODE'' \<mapsto> ''s'']"]
  by simp

end
